theory Spec2Isabelle
  imports Complex_Main
begin

section \<open>The Metropolis spin-flip simulation of Notebooks2018/Neel.ipynb\<close>

text \<open>
  The notebook keeps three global arrays: \<^verbatim>\<open>spins\<close> (an \<open>N \<times> N\<close> array of int64 holding
  \<open>+1\<close>/\<open>-1\<close>) and the two observable arrays \<^verbatim>\<open>M\<close> and \<^verbatim>\<open>MS\<close> of shape \<open>(Steps, 2)\<close>.
  They are modelled as a record that every operation takes and returns.

  Conventions of the embedding.
  \<^item> float64 values are idealised as \<open>real\<close>; the one non-real value the program can
    produce, NaN (the mean of an empty array), is a constructor of its own.
  \<^item> Python exceptions are values of \<open>error\<close>; a computation that can raise returns
    \<open>error + 'a\<close> with \<open>Inl\<close> for the exception.
  \<^item> The random source is an input: the uniform field used for the initial lattice is a
    function \<open>rnd\<close>, and each loop iteration \<open>idx\<close> receives a \<open>draw\<close> holding the pair
    returned by \<^verbatim>\<open>numpy.random.randint(0, N, 2)\<close> and the number
    \<^verbatim>\<open>numpy.random.random()\<close> returns if it is called.
  \<^item> \<^verbatim>\<open>live_plot\<close> only reads the arrays and is left out.
\<close>

subsection \<open>Data\<close>

record params =
  J :: real
  B :: real
  kBT :: real

type_synonym lattice = "int list list"

datatype error =
    NegativeDimensions  \<comment> \<open>ValueError: negative dimensions are not allowed\<close>
  | IndexError          \<comment> \<open>IndexError: index out of bounds\<close>
  | BroadcastError      \<comment> \<open>ValueError: operands could not be broadcast together\<close>
  | LowGeHigh           \<comment> \<open>ValueError: low >= high, from randint\<close>

datatype npfloat = Fin real | NaN

type_synonym series = "(real \<times> npfloat) list"

record sim =
  spins :: lattice
  M :: series
  MS :: series

record draw =
  site_i :: nat
  site_j :: nat
  unif :: real

subsection \<open>deltaE\<close>

text \<open>
  \<^verbatim>\<open>S[a, b]\<close> for indices that are not negative. Every index \<open>deltaE\<close> uses is either a site
  coordinate or a Python remainder modulo a positive \<open>N\<close>, so none is negative.
\<close>

definition cell :: "lattice \<Rightarrow> int \<Rightarrow> int \<Rightarrow> int" where
  "cell S a b = S ! nat a ! nat b"

text \<open>
  \<^verbatim>\<open>
  def deltaE(S,i,j):
      Sij=S[i,j]
      Enow=-Sij*(J*(S[(i+1)%N,j]+S[(i-1)%N,j]+S[i,(j+1)%N]+S[i,(j-1)%N])+B)
      return -2*Enow
  \<close>
  Python's \<^verbatim>\<open>%\<close> is the floored remainder, which is \<open>mod\<close> on \<open>int\<close>; the subtraction is
  done on \<open>int\<close>, where \<open>0 - 1 = -1\<close>.
\<close>

definition deltaE :: "params \<Rightarrow> int \<Rightarrow> lattice \<Rightarrow> nat \<Rightarrow> nat \<Rightarrow> real" where
  "deltaE p N S i j =
     (let Sij = cell S (int i) (int j);
          Enow = - real_of_int Sij *
                   (J p * real_of_int (cell S ((int i + 1) mod N) (int j)
                                     + cell S ((int i - 1) mod N) (int j)
                                     + cell S (int i) ((int j + 1) mod N)
                                     + cell S (int i) ((int j - 1) mod N))
                    + B p)
      in - 2 * Enow)"

text \<open>
  The formula as the specification words it: minus two times the product of the spin
  with the local field.
\<close>

definition spec_energy_delta :: "params \<Rightarrow> int \<Rightarrow> lattice \<Rightarrow> nat \<Rightarrow> nat \<Rightarrow> real" where
  "spec_energy_delta p N S i j =
     - 2 * (real_of_int (cell S (int i) (int j)) *
             (J p * real_of_int (cell S ((int i + 1) mod N) (int j)
                               + cell S ((int i - 1) mod N) (int j)
                               + cell S (int i) ((int j + 1) mod N)
                               + cell S (int i) ((int j - 1) mod N))
              + B p))"

subsection \<open>The flip attempt\<close>

text \<open>
  \<^verbatim>\<open>(dE < 0.0) or (numpy.random.random() < numpy.exp(-dE / float(kBT)))\<close>.
  The second disjunct is evaluated only when \<open>dE \<ge> 0\<close>. For \<open>kBT = 0\<close> numpy does not
  raise: \<open>-dE / 0.0\<close> is NaN (for \<open>dE = 0\<close>) or \<open>-inf\<close> (for \<open>dE > 0\<close>), the exponential is
  NaN or \<open>0\<close>, and the comparison with a number of \<open>[0, 1)\<close> is false. HOL's \<open>x / 0 = 0\<close>
  would say otherwise, so the case is written out.
\<close>

definition accept :: "params \<Rightarrow> real \<Rightarrow> real \<Rightarrow> bool" where
  "accept p dE u = (dE < 0 \<or> (if kBT p = 0 then False else u < exp (- dE / kBT p)))"

text \<open>\<^verbatim>\<open>spins[i, j] = -spins[i, j]\<close>\<close>

definition flip :: "lattice \<Rightarrow> nat \<Rightarrow> nat \<Rightarrow> lattice" where
  "flip S i j = S[i := (S ! i)[j := - (S ! i ! j)]]"

definition attempt :: "params \<Rightarrow> int \<Rightarrow> lattice \<Rightarrow> draw \<Rightarrow> lattice" where
  "attempt p N S d =
     (let i = site_i d; j = site_j d; dE = deltaE p N S i j
      in if accept p dE (unif d) then flip S i j else S)"

subsection \<open>Observables\<close>

text \<open>\<^verbatim>\<open>a[::2]\<close>; \<^verbatim>\<open>a[1::2]\<close> is \<open>stride2 (drop 1 a)\<close>.\<close>

fun stride2 :: "'a list \<Rightarrow> 'a list" where
  "stride2 [] = []"
| "stride2 [x] = [x]"
| "stride2 (x # y # xs) = x # stride2 xs"

text \<open>
  The product of two one-dimensional arrays under numpy's broadcasting: equal lengths
  multiply element by element, an array of length one is stretched to the other's length
  (also to length zero), anything else raises.
\<close>

definition np_mul :: "int list \<Rightarrow> int list \<Rightarrow> error + int list" where
  "np_mul a b =
     (if length a = length b then Inr (map2 (*) a b)
      else if length a = 1 then Inr (map (\<lambda>y. hd a * y) b)
      else if length b = 1 then Inr (map (\<lambda>x. x * hd b) a)
      else Inl BroadcastError)"

text \<open>\<^verbatim>\<open>numpy.mean\<close>: the mean of an empty array is NaN (with a warning, not an exception).\<close>

definition np_mean :: "int list \<Rightarrow> npfloat" where
  "np_mean xs =
     (if xs = [] then NaN else Fin (real_of_int (sum_list xs) / real (length xs)))"

fun np_neg :: "npfloat \<Rightarrow> npfloat" where
  "np_neg (Fin x) = Fin (- x)"
| "np_neg NaN = NaN"

text \<open>\<^verbatim>\<open>numpy.mean(spins)\<close>\<close>

definition magnetization :: "lattice \<Rightarrow> npfloat" where
  "magnetization S = np_mean (concat S)"

text \<open>\<^verbatim>\<open>-numpy.mean(spins.flatten()[::2] * spins.flatten()[1::2])\<close>\<close>

definition staggered :: "lattice \<Rightarrow> error + npfloat" where
  "staggered S =
     (let f = concat S
      in case np_mul (stride2 f) (stride2 (drop 1 f)) of
           Inl e \<Rightarrow> Inl e
         | Inr pr \<Rightarrow> Inr (np_neg (np_mean pr)))"

text \<open>\<^verbatim>\<open>A[k] = idx, v\<close> on an array of rows, for \<open>k \<ge> 0\<close>.\<close>

definition setrow :: "series \<Rightarrow> nat \<Rightarrow> real \<times> npfloat \<Rightarrow> error + series" where
  "setrow A k row = (if k < length A then Inr (A[k := row]) else Inl IndexError)"

subsection \<open>Initialisation\<close>

text \<open>\<^verbatim>\<open>numpy.where(numpy.random.random((N, N)) > 0.5, 1, -1)\<close> for \<open>N \<ge> 0\<close>.\<close>

definition init_spins :: "nat \<Rightarrow> (nat \<Rightarrow> nat \<Rightarrow> real) \<Rightarrow> lattice" where
  "init_spins n rnd =
     map (\<lambda>i. map (\<lambda>j. if rnd i j > 1 / 2 then 1 else - 1) [0..<n]) [0..<n]"

text \<open>
  \<^verbatim>\<open>
  spins = numpy.where(numpy.random.random((N, N)) > 0.5, 1, -1)
  M     = numpy.zeros((Steps, 2))
  MS    = numpy.zeros((Steps, 2))
  M[0]  = 0, numpy.array([numpy.mean(spins)])
  MS[0] = 0, numpy.array([-numpy.mean(spins.flatten()[::2] * spins.flatten()[1::2])])
  \<close>
  A negative \<open>N\<close> or \<open>Steps\<close> makes the array constructor raise. In each assignment the right
  hand side is evaluated before the row is stored, and the one-element array on the right
  is stored as its element (as the numpy of the notebook's time does). \<^verbatim>\<open>numpy.zeros\<close> fills
  the rows with \<open>(0, 0)\<close>.
\<close>

definition init :: "int \<Rightarrow> int \<Rightarrow> (nat \<Rightarrow> nat \<Rightarrow> real) \<Rightarrow> error + sim" where
  "init N Steps rnd =
     (if N < 0 then Inl NegativeDimensions
      else let S = init_spins (nat N) rnd
      in if Steps < 0 then Inl NegativeDimensions
      else let M0 = replicate (nat Steps) (0, Fin 0);
               MS0 = replicate (nat Steps) (0, Fin 0)
      in case setrow M0 0 (0, magnetization S) of
           Inl e \<Rightarrow> Inl e
         | Inr M1 \<Rightarrow>
             (case staggered S of
                Inl e \<Rightarrow> Inl e
              | Inr v \<Rightarrow>
                  (case setrow MS0 0 (0, v) of
                     Inl e \<Rightarrow> Inl e
                   | Inr MS1 \<Rightarrow> Inr \<lparr>spins = S, M = M1, MS = MS1\<rparr>)))"

subsection \<open>One iteration of the loop, and the loop\<close>

text \<open>
  \<^verbatim>\<open>
  i, j = numpy.random.randint(0, N, 2)
  dE = deltaE(spins, i, j)
  if (dE < 0.0) or (numpy.random.random() < numpy.exp(-dE / float(kBT))):
      spins[i, j] = -spins[i, j]
  M[idx]  = idx, numpy.mean(spins)
  MS[idx] = idx, numpy.mean(-numpy.mean(spins.flatten()[::2] * spins.flatten()[1::2]))
  \<close>
  \<^verbatim>\<open>randint(0, N, 2)\<close> raises for \<open>N \<le> 0\<close>. The outer \<^verbatim>\<open>numpy.mean\<close> of the last line is
  the mean of a scalar, the scalar itself.
\<close>

definition step :: "params \<Rightarrow> int \<Rightarrow> sim \<Rightarrow> nat \<Rightarrow> draw \<Rightarrow> error + sim" where
  "step p N st idx d =
     (if N \<le> 0 then Inl LowGeHigh
      else let S' = attempt p N (spins st) d
      in case setrow (M st) idx (real idx, magnetization S') of
           Inl e \<Rightarrow> Inl e
         | Inr M' \<Rightarrow>
             (case staggered S' of
                Inl e \<Rightarrow> Inl e
              | Inr v \<Rightarrow>
                  (case setrow (MS st) idx (real idx, v) of
                     Inl e \<Rightarrow> Inl e
                   | Inr MS' \<Rightarrow> Inr \<lparr>spins = S', M = M', MS = MS'\<rparr>)))"

text \<open>
  \<open>run_steps p N rng idx k st\<close> runs the iterations \<open>idx, idx + 1, \<dots>, idx + k - 1\<close> of
  \<^verbatim>\<open>for idx in range(Steps)\<close> from the state \<open>st\<close>; an exception ends the run.
\<close>

fun run_steps :: "params \<Rightarrow> int \<Rightarrow> (nat \<Rightarrow> draw) \<Rightarrow> nat \<Rightarrow> nat \<Rightarrow> sim \<Rightarrow> error + sim" where
  "run_steps p N rng idx 0 st = Inr st"
| "run_steps p N rng idx (Suc k) st =
     (case step p N st idx (rng idx) of
        Inl e \<Rightarrow> Inl e
      | Inr st' \<Rightarrow> run_steps p N rng (Suc idx) k st')"

definition simulate ::
  "params \<Rightarrow> int \<Rightarrow> int \<Rightarrow> (nat \<Rightarrow> nat \<Rightarrow> real) \<Rightarrow> (nat \<Rightarrow> draw) \<Rightarrow> error + sim" where
  "simulate p N Steps rnd rng =
     (case init N Steps rnd of
        Inl e \<Rightarrow> Inl e
      | Inr st \<Rightarrow> run_steps p N rng 0 (nat Steps) st)"

subsection \<open>Predicates used in the statements\<close>

text \<open>An \<open>N \<times> N\<close> lattice whose cells are all \<open>+1\<close> or \<open>-1\<close>.\<close>

definition lattice_ok :: "int \<Rightarrow> lattice \<Rightarrow> bool" where
  "lattice_ok N S \<longleftrightarrow>
     int (length S) = N \<and>
     list_all (\<lambda>r. int (length r) = N \<and> list_all (\<lambda>s. s = 1 \<or> s = - 1) r) S"

text \<open>The contract of \<^verbatim>\<open>randint(0, N, 2)\<close> and \<^verbatim>\<open>random()\<close> for one draw.\<close>

definition draw_ok :: "int \<Rightarrow> draw \<Rightarrow> bool" where
  "draw_ok N d \<longleftrightarrow> int (site_i d) < N \<and> int (site_j d) < N \<and> 0 \<le> unif d \<and> unif d < 1"

text \<open>The periodic neighbours of a coordinate, written without the remainder.\<close>

definition succ_wrap :: "nat \<Rightarrow> nat \<Rightarrow> nat" where
  "succ_wrap n i = (if i + 1 = n then 0 else i + 1)"

definition pred_wrap :: "nat \<Rightarrow> nat \<Rightarrow> nat" where
  "pred_wrap n i = (if i = 0 then n - 1 else i - 1)"

subsection \<open>The observables as the specification words them\<close>

text \<open>
  The row-major flattening of an \<open>n \<times> n\<close> lattice: position \<open>k\<close> holds the cell of row
  \<open>k div n\<close> and column \<open>k mod n\<close>.
\<close>

definition flat_at :: "nat \<Rightarrow> lattice \<Rightarrow> nat \<Rightarrow> int" where
  "flat_at n S k = S ! (k div n) ! (k mod n)"

text \<open>The arithmetic mean of all \<open>n \<times> n\<close> lattice values.\<close>

definition spec_magnetization :: "nat \<Rightarrow> lattice \<Rightarrow> real" where
  "spec_magnetization n S =
     real_of_int (\<Sum>i\<leftarrow>[0..<n]. \<Sum>j\<leftarrow>[0..<n]. S ! i ! j) / real (n * n)"

text \<open>
  The negative of the mean of the products of the spin at each even position \<open>2k\<close> of the
  flattening with the spin at the odd position \<open>2k + 1\<close>.
\<close>

definition spec_staggered :: "nat \<Rightarrow> lattice \<Rightarrow> real" where
  "spec_staggered n S =
     - (real_of_int (\<Sum>k\<leftarrow>[0..<n * n div 2]. flat_at n S (2 * k) * flat_at n S (2 * k + 1))
        / real (n * n div 2))"

subsection \<open>A small concrete run\<close>

text \<open>
  The notebook's parameters, a uniform field (constantly \<open>3/4\<close>) that makes every initial
  spin \<open>+1\<close>, and a random source that always proposes the site \<open>(0, 0)\<close> with the uniform
  number \<open>1/2\<close>.
\<close>

abbreviation notebook_params :: params where
  "notebook_params \<equiv> \<lparr>J = - 2, B = - 2, kBT = 3\<rparr>"

abbreviation all_up :: "nat \<Rightarrow> nat \<Rightarrow> real" where
  "all_up \<equiv> \<lambda>i j. 3 / 4"

abbreviation corner_draw :: draw where
  "corner_draw \<equiv> \<lparr>site_i = 0, site_j = 0, unif = 1 / 2\<rparr>"

abbreviation corner_rng :: "nat \<Rightarrow> draw" where
  "corner_rng \<equiv> \<lambda>k. corner_draw"

section \<open>Properties of deltaE\<close>

lemma wrap_succ: "i < n \<Longrightarrow> nat ((int i + 1) mod int n) = succ_wrap n i"
proof -
  assume h: "i < n"
  show ?thesis
  proof (cases "i + 1 = n")
    case True
    then have "(int i + 1) mod int n = 0"
      by (metis mod_self of_nat_Suc Suc_eq_plus1 add.commute of_nat_add of_nat_1)
    with True show ?thesis by (simp add: succ_wrap_def)
  next
    case False
    with h have "(int i + 1) mod int n = int i + 1"
      by simp
    with False show ?thesis by (simp add: succ_wrap_def)
  qed
qed

lemma wrap_pred: "i < n \<Longrightarrow> nat ((int i - 1) mod int n) = pred_wrap n i"
proof -
  assume h: "i < n"
  show ?thesis
  proof (cases "i = 0")
    case True
    have "(- 1) mod int n = int n - 1"
      using h by (simp add: zmod_minus1)
    with True show ?thesis by (simp add: pred_wrap_def)
  next
    case False
    with h have "(int i - 1) mod int n = int i - 1"
      by simp
    with False show ?thesis by (simp add: pred_wrap_def nat_diff_distrib')
  qed
qed

lemma flip_nth:
  "a < length S \<Longrightarrow> b < length (S ! a) \<Longrightarrow>
   flip S i j ! a ! b = (if a = i \<and> b = j then - (S ! a ! b) else S ! a ! b)"
  by (cases "a = i"; cases "b = j") (simp_all add: flip_def)

lemma flip_length: "length (flip S i j) = length S"
  by (simp add: flip_def)

lemma flip_row_length: "a < length S \<Longrightarrow> length (flip S i j ! a) = length (S ! a)"
  by (cases "a = i") (simp_all add: flip_def)

lemma lattice_ok_dims:
  "lattice_ok N S \<Longrightarrow> length S = nat N \<and> (\<forall>a < nat N. length (S ! a) = nat N)"
  by (auto simp: lattice_ok_def list_all_length)

lemma lattice_ok_cell:
  "lattice_ok N S \<Longrightarrow> a < nat N \<Longrightarrow> b < nat N \<Longrightarrow> S ! a ! b = 1 \<or> S ! a ! b = - 1"
proof -
  assume ok: "lattice_ok N S" and a: "a < nat N" and b: "b < nat N"
  from ok a have la: "a < length S" by (auto simp: lattice_ok_def)
  with ok have r: "int (length (S ! a)) = N" "list_all (\<lambda>s. s = 1 \<or> s = - 1) (S ! a)"
    by (simp_all add: lattice_ok_def list_all_length)
  from r(1) b have "b < length (S ! a)" by simp
  with r(2) show ?thesis by (simp add: list_all_length)
qed

lemma succ_wrap_less: "i < n \<Longrightarrow> succ_wrap n i < n"
  by (auto simp: succ_wrap_def)

lemma pred_wrap_less: "i < n \<Longrightarrow> pred_wrap n i < n"
  by (auto simp: pred_wrap_def)

lemma succ_wrap_neq: "2 \<le> n \<Longrightarrow> i < n \<Longrightarrow> succ_wrap n i \<noteq> i"
  by (auto simp: succ_wrap_def)

lemma pred_wrap_neq: "2 \<le> n \<Longrightarrow> i < n \<Longrightarrow> pred_wrap n i \<noteq> i"
  by (auto simp: pred_wrap_def)

lemma deltaE_wrapped:
  assumes "int i < N" "int j < N"
  shows "deltaE p N S i j =
         2 * (real_of_int (S ! i ! j) *
               (J p * real_of_int (S ! succ_wrap (nat N) i ! j + S ! pred_wrap (nat N) i ! j
                                 + S ! i ! succ_wrap (nat N) j + S ! i ! pred_wrap (nat N) j)
                + B p))"
proof -
  from assms have n: "int (nat N) = N" "i < nat N" "j < nat N" by auto
  have s: "nat ((int i + 1) mod N) = succ_wrap (nat N) i" "nat ((int j + 1) mod N) = succ_wrap (nat N) j"
    using wrap_succ[OF n(2)] wrap_succ[OF n(3)] n(1) by simp_all
  have q: "nat ((int i - 1) mod N) = pred_wrap (nat N) i" "nat ((int j - 1) mod N) = pred_wrap (nat N) j"
    using wrap_pred[OF n(2)] wrap_pred[OF n(3)] n(1) by simp_all
  show ?thesis
    by (simp add: deltaE_def cell_def Let_def s q)
qed

text \<open>
  Claim C1, as amended. For every \<open>N \<times> N\<close> lattice \<open>S\<close> of \<open>+1\<close>/\<open>-1\<close> and every site
  \<open>(i, j)\<close> with \<open>0 \<le> i, j < N\<close>, \<open>deltaE\<close> returns \<open>-2 \<cdot> Enow\<close> where the current energy
  contribution is \<open>Enow = - S[i,j] \<cdot> (J \<cdot> (sum of the four periodic neighbours) + B)\<close>, that is
  \<open>+2 \<cdot> S[i,j] \<cdot> (J \<cdot> (\<dots>) + B)\<close>: the negation of the formula the claim writes. The four
  neighbours are the cells at \<open>i + 1\<close>, \<open>i - 1\<close>, \<open>j + 1\<close>, \<open>j - 1\<close> wrapped around the
  edges. \<open>deltaE\<close> yields a number only: the lattice is not among its results.
\<close>

theorem deltaE_value:
  assumes "lattice_ok N S" "int i < N" "int j < N"
  shows "deltaE p N S i j =
         2 * (real_of_int (S ! i ! j) *
               (J p * real_of_int (S ! succ_wrap (nat N) i ! j + S ! pred_wrap (nat N) i ! j
                                 + S ! i ! succ_wrap (nat N) j + S ! i ! pred_wrap (nat N) j)
                + B p))
         \<and> deltaE p N S i j = - spec_energy_delta p N S i j"
  using deltaE_wrapped[OF assms(2,3)] by (simp add: deltaE_def spec_energy_delta_def Let_def)

theorem deltaE_value_witness:
  "lattice_ok 2 [[1, - 1], [- 1, - 1]] \<and> int 1 < 2 \<and>
   deltaE \<lparr>J = - 2, B = 1, kBT = 3\<rparr> 2 [[1, - 1], [- 1, - 1]] 1 1 = - 18 \<and>
   spec_energy_delta \<lparr>J = - 2, B = 1, kBT = 3\<rparr> 2 [[1, - 1], [- 1, - 1]] 1 1 = 18"
  using deltaE_value[of 2 "[[1, - 1], [- 1, - 1]]" 1 1 "\<lparr>J = - 2, B = 1, kBT = 3\<rparr>"]
  by (simp add: lattice_ok_def succ_wrap_def pred_wrap_def spec_energy_delta_def cell_def)

text \<open>
  The formula of claim C1 as it is written has the opposite sign: on the \<open>2 \<times> 2\<close> lattice of
  all \<open>+1\<close> with \<open>J = -2\<close>, \<open>B = 0\<close> the code returns \<open>-16\<close> (the value the specification's
  own scenario gives) and the claim's formula \<open>+16\<close>.
\<close>

theorem spec_energy_delta_counterexample:
  "lattice_ok 2 [[1, 1], [1, 1]] \<and>
   deltaE \<lparr>J = - 2, B = 0, kBT = 1\<rparr> 2 [[1, 1], [1, 1]] 0 0 = - 16 \<and>
   spec_energy_delta \<lparr>J = - 2, B = 0, kBT = 1\<rparr> 2 [[1, 1], [1, 1]] 0 0 = 16 \<and>
   deltaE \<lparr>J = - 2, B = 0, kBT = 1\<rparr> 2 [[1, 1], [1, 1]] 0 0
     \<noteq> spec_energy_delta \<lparr>J = - 2, B = 0, kBT = 1\<rparr> 2 [[1, 1], [1, 1]] 0 0"
  by (simp add: lattice_ok_def deltaE_def spec_energy_delta_def cell_def)

text \<open>
  Claim C9, as amended. For every \<open>N \<times> N\<close> lattice \<open>S\<close> of \<open>+1\<close>/\<open>-1\<close> with \<open>N \<ge> 2\<close> and
  every site \<open>(i, j)\<close> with \<open>0 \<le> i, j < N\<close>: negating the spin at \<open>(i, j)\<close> and leaving all
  other cells as they are negates \<open>deltaE\<close> at \<open>(i, j)\<close>.
\<close>

theorem deltaE_flip:
  assumes "lattice_ok N S" "2 \<le> N" "int i < N" "int j < N"
  shows "deltaE p N (flip S i j) i j = - deltaE p N S i j"
proof -
  let ?n = "nat N"
  from assms have n: "i < ?n" "j < ?n" "2 \<le> ?n" by auto
  from lattice_ok_dims[OF assms(1)] have len: "length S = ?n" and row: "\<And>a. a < ?n \<Longrightarrow> length (S ! a) = ?n"
    by auto
  have nb: "succ_wrap ?n i < ?n" "pred_wrap ?n i < ?n" "succ_wrap ?n j < ?n" "pred_wrap ?n j < ?n"
    using n by (simp_all add: succ_wrap_less pred_wrap_less)
  have ne: "succ_wrap ?n i \<noteq> i" "pred_wrap ?n i \<noteq> i" "succ_wrap ?n j \<noteq> j" "pred_wrap ?n j \<noteq> j"
    using n by (simp_all add: succ_wrap_neq pred_wrap_neq)
  have c: "flip S i j ! i ! j = - (S ! i ! j)"
    using n len row by (simp add: flip_nth)
  have u: "flip S i j ! succ_wrap ?n i ! j = S ! succ_wrap ?n i ! j"
          "flip S i j ! pred_wrap ?n i ! j = S ! pred_wrap ?n i ! j"
          "flip S i j ! i ! succ_wrap ?n j = S ! i ! succ_wrap ?n j"
          "flip S i j ! i ! pred_wrap ?n j = S ! i ! pred_wrap ?n j"
    using n nb ne len row by (simp_all add: flip_nth)
  show ?thesis
    by (simp add: deltaE_wrapped[OF assms(3,4)] c u)
qed

theorem deltaE_flip_witness:
  "lattice_ok 2 [[1, - 1], [- 1, - 1]] \<and> (2::int) \<le> 2 \<and> int 1 < 2 \<and>
   deltaE \<lparr>J = - 2, B = 1, kBT = 3\<rparr> 2 (flip [[1, - 1], [- 1, - 1]] 1 1) 1 1 = 18 \<and>
   deltaE \<lparr>J = - 2, B = 1, kBT = 3\<rparr> 2 [[1, - 1], [- 1, - 1]] 1 1 = - 18"
  using deltaE_flip[of 2 "[[1, - 1], [- 1, - 1]]" 1 1 "\<lparr>J = - 2, B = 1, kBT = 3\<rparr>"]
  by (simp add: lattice_ok_def deltaE_def cell_def)

text \<open>
  For \<open>N = 1\<close> the site is its own neighbour in all four directions, the flip negates the
  local field too, and \<open>deltaE\<close> is not negated: with \<open>J = -2\<close>, \<open>B = 0\<close> it is \<open>-16\<close> before
  and after the flip.
\<close>

theorem deltaE_flip_counterexample:
  "lattice_ok 1 [[1]] \<and>
   deltaE \<lparr>J = - 2, B = 0, kBT = 1\<rparr> 1 (flip [[1]] 0 0) 0 0 = - 16 \<and>
   deltaE \<lparr>J = - 2, B = 0, kBT = 1\<rparr> 1 [[1]] 0 0 = - 16 \<and>
   deltaE \<lparr>J = - 2, B = 0, kBT = 1\<rparr> 1 (flip [[1]] 0 0) 0 0
     \<noteq> - deltaE \<lparr>J = - 2, B = 0, kBT = 1\<rparr> 1 [[1]] 0 0"
  by (simp add: lattice_ok_def deltaE_def cell_def flip_def)

section \<open>The flip attempt\<close>

lemma exp_neg_bound: "0 \<le> x \<Longrightarrow> exp (- x) \<le> 1 / (1 + (x::real))"
proof -
  assume h: "0 \<le> x"
  have "1 + x \<le> exp x" by (rule exp_ge_add_one_self)
  moreover have "0 < 1 + x" using h by simp
  ultimately have "1 / exp x \<le> 1 / (1 + x)" by (simp add: frac_le)
  then show ?thesis by (simp add: exp_minus inverse_eq_divide)
qed

lemma list_all_update: "list_all P xs \<Longrightarrow> P v \<Longrightarrow> list_all P (xs[k := v])"
  by (induction xs arbitrary: k) (auto split: nat.splits)

lemma spin_row_update:
  assumes "list_all (\<lambda>s. s = 1 \<or> s = - 1) (r :: int list)"
  shows "list_all (\<lambda>s. s = 1 \<or> s = - 1) (r[j := - (r ! j)])"
proof (cases "j < length r")
  case True
  with assms have "r ! j = 1 \<or> r ! j = - 1" by (simp add: list_all_length)
  then have "- (r ! j) = 1 \<or> - (r ! j) = - 1" by auto
  with assms show ?thesis by (rule list_all_update)
next
  case False
  with assms show ?thesis by (simp add: list_update_beyond)
qed

lemma lattice_ok_flip: "lattice_ok N S \<Longrightarrow> lattice_ok N (flip S i j)"
proof -
  assume ok: "lattice_ok N S"
  show ?thesis
  proof (cases "i < length S")
    case False
    then show ?thesis using ok by (simp add: flip_def list_update_beyond)
  next
    case True
    from ok True have r: "int (length (S ! i)) = N" "list_all (\<lambda>s. s = 1 \<or> s = - 1) (S ! i)"
      by (simp_all add: lattice_ok_def list_all_length)
    have "list_all (\<lambda>s. s = 1 \<or> s = - 1) ((S ! i)[j := - (S ! i ! j)])"
      using r(2) by (rule spin_row_update)
    with r(1) have "int (length ((S ! i)[j := - (S ! i ! j)])) = N \<and>
        list_all (\<lambda>s. s = 1 \<or> s = - 1) ((S ! i)[j := - (S ! i ! j)])" by simp
    with ok show ?thesis
      unfolding lattice_ok_def flip_def by (simp add: list_all_update)
  qed
qed

lemma lattice_ok_attempt: "lattice_ok N S \<Longrightarrow> lattice_ok N (attempt p N S d)"
  by (simp add: attempt_def Let_def lattice_ok_flip)

lemma lattice_ok_init_spins: "lattice_ok (int n) (init_spins n rnd)"
  by (simp add: lattice_ok_def init_spins_def list_all_length)

section \<open>The observables\<close>

lemma length_stride2: "length (stride2 xs) = (length xs + 1) div 2"
  by (induction xs rule: stride2.induct) simp_all

lemma length_stride2_drop: "length (stride2 (drop (Suc 0) xs)) = length xs div 2"
  by (cases xs) (simp_all add: length_stride2)

lemma nth_stride2: "2 * k < length xs \<Longrightarrow> stride2 xs ! k = xs ! (2 * k)"
proof (induction xs arbitrary: k rule: stride2.induct)
  case 1
  then show ?case by simp
next
  case (2 x)
  then show ?case by simp
next
  case (3 x y xs)
  then show ?case by (cases k) simp_all
qed

lemma nth_stride2_drop:
  "2 * k + 1 < length xs \<Longrightarrow> stride2 (drop (Suc 0) xs) ! k = xs ! (2 * k + 1)"
  by (cases xs) (simp_all add: nth_stride2)

lemma map_by_index: "map f xs = map (\<lambda>i. f (xs ! i)) [0..<length xs]"
  by (rule nth_equalityI) simp_all

lemma sum_list_nth: "sum_list xs = (\<Sum>k\<leftarrow>[0..<length xs]. xs ! k)"
  using map_by_index[of "\<lambda>x. x" xs] by simp

lemma concat_uniform_length:
  "list_all (\<lambda>r. length r = n) S \<Longrightarrow> length (concat S) = n * length S"
  by (induction S) simp_all

lemma concat_uniform_nth:
  "list_all (\<lambda>r. length r = n) S \<Longrightarrow> k < n * length S \<Longrightarrow>
   concat S ! k = S ! (k div n) ! (k mod n)"
proof (induction S arbitrary: k)
  case Nil
  then show ?case by simp
next
  case (Cons r S)
  then have r: "length r = n" and rest: "list_all (\<lambda>r. length r = n) S" by simp_all
  from Cons.prems(2) have npos: "0 < n" by (cases n) simp_all
  show ?case
  proof (cases "k < n")
    case True
    with r show ?thesis by (simp add: nth_append)
  next
    case False
    then have ge: "n \<le> k" by simp
    with Cons.prems(2) have lt: "k - n < n * length S" by simp
    from ge npos have d: "k div n = Suc ((k - n) div n)"
      by (simp add: le_div_geq)
    from ge have m: "k mod n = (k - n) mod n"
      by (simp add: le_mod_geq)
    from False r have "concat (r # S) ! k = concat S ! (k - n)"
      by (simp add: nth_append)
    also have "\<dots> = S ! ((k - n) div n) ! ((k - n) mod n)"
      using Cons.IH[OF rest lt] .
    finally show ?thesis by (simp add: d m)
  qed
qed

lemma lattice_ok_rows: "lattice_ok N S \<Longrightarrow> list_all (\<lambda>r. length r = nat N) S"
  by (auto simp: lattice_ok_def list_all_iff)

lemma lattice_ok_length_concat: "lattice_ok N S \<Longrightarrow> length (concat S) = nat N * nat N"
  using concat_uniform_length[OF lattice_ok_rows] lattice_ok_dims by fastforce

lemma lattice_ok_concat_nth:
  "lattice_ok N S \<Longrightarrow> k < nat N * nat N \<Longrightarrow> concat S ! k = flat_at (nat N) S k"
  using concat_uniform_nth[OF lattice_ok_rows, of N S k] lattice_ok_dims[of N S]
  by (simp add: flat_at_def)


lemma sum_list_flatten: "sum_list (concat xss) = sum_list (map sum_list (xss :: int list list))"
  by (induction xss) simp_all

lemma sum_list_rows:
  assumes "lattice_ok N S"
  shows "sum_list (concat S) = (\<Sum>i\<leftarrow>[0..<nat N]. \<Sum>j\<leftarrow>[0..<nat N]. S ! i ! j)"
proof -
  from lattice_ok_dims[OF assms]
  have len: "length S = nat N" and row: "\<And>a. a < nat N \<Longrightarrow> length (S ! a) = nat N"
    by auto
  have "sum_list (concat S) = sum_list (map sum_list S)"
    by (rule sum_list_flatten)
  also have "map sum_list S = map (\<lambda>i. sum_list (S ! i)) [0..<nat N]"
    using map_by_index[of sum_list S] len by simp
  also have "\<dots> = map (\<lambda>i. \<Sum>j\<leftarrow>[0..<nat N]. S ! i ! j) [0..<nat N]"
  proof (rule map_cong[OF refl])
    fix i assume "i \<in> set [0..<nat N]"
    then have "length (S ! i) = nat N" using row by simp
    then show "sum_list (S ! i) = (\<Sum>j\<leftarrow>[0..<nat N]. S ! i ! j)"
      using sum_list_nth[of "S ! i"] by simp
  qed
  finally show ?thesis .
qed

lemma magnetization_spec:
  assumes "lattice_ok N S" "0 < N"
  shows "magnetization S = Fin (spec_magnetization (nat N) S)"
proof -
  from lattice_ok_length_concat[OF assms(1)] assms(2)
  have len: "length (concat S) = nat N * nat N" and pos: "length (concat S) \<noteq> 0" by simp_all
  have ne: "concat S \<noteq> []"
  proof
    assume "concat S = []"
    then have "length (concat S) = 0" by (simp only: list.size)
    with pos show False by simp
  qed
  show ?thesis
    using ne by (simp add: magnetization_def np_mean_def spec_magnetization_def
        sum_list_rows[OF assms(1)] len)
qed

lemma map2_mult_nth:
  "length a = m \<Longrightarrow> length b = m \<Longrightarrow> map2 (*) a b = map (\<lambda>k. a ! k * b ! k) [0..<m]"
  by (rule nth_equalityI) simp_all

lemma staggered_even:
  assumes "lattice_ok N S" "0 < N" "even N"
  shows "staggered S = Inr (Fin (spec_staggered (nat N) S))"
proof -
  let ?n = "nat N" and ?f = "concat S"
  let ?m = "?n * ?n div 2"
  from assms have en: "even ?n" and npos: "0 < ?n"
    by (simp_all add: even_nat_iff)
  have len: "length ?f = ?n * ?n" by (rule lattice_ok_length_concat[OF assms(1)])
  from en have el: "even (?n * ?n)" by simp
  from en npos have "2 \<le> ?n" by (cases "?n = 1") auto
  then have "2 * 2 \<le> ?n * ?n" using mult_le_mono[of 2 ?n 2 ?n] by simp
  then have mpos: "0 < ?m" by simp
  have la: "length (stride2 ?f) = ?m"
    using el by (simp add: length_stride2 len)
  have lb: "length (stride2 (drop 1 ?f)) = ?m"
    using length_stride2_drop[of ?f] len by simp
  have pr: "map2 (*) (stride2 ?f) (stride2 (drop 1 ?f)) =
            map (\<lambda>k. flat_at ?n S (2 * k) * flat_at ?n S (2 * k + 1)) [0..<?m]"
  proof -
    have "map2 (*) (stride2 ?f) (stride2 (drop 1 ?f)) =
          map (\<lambda>k. stride2 ?f ! k * stride2 (drop 1 ?f) ! k) [0..<?m]"
      by (rule map2_mult_nth[OF la lb])
    also have "\<dots> = map (\<lambda>k. flat_at ?n S (2 * k) * flat_at ?n S (2 * k + 1)) [0..<?m]"
    proof (rule map_cong[OF refl])
      fix k assume "k \<in> set [0..<?m]"
      then have k: "k < ?m" by simp
      with el have k1: "2 * k + 1 < ?n * ?n" by (elim evenE) simp
      then have k0: "2 * k < ?n * ?n" by simp
      have "stride2 ?f ! k = flat_at ?n S (2 * k)"
        using k0 by (simp add: nth_stride2 len lattice_ok_concat_nth[OF assms(1)])
      moreover have "stride2 (drop 1 ?f) ! k = flat_at ?n S (2 * k + 1)"
        using k1 nth_stride2_drop[of k ?f] len lattice_ok_concat_nth[OF assms(1) k1] by simp
      ultimately show "stride2 ?f ! k * stride2 (drop 1 ?f) ! k =
                       flat_at ?n S (2 * k) * flat_at ?n S (2 * k + 1)" by simp
    qed
    finally show ?thesis .
  qed
  have mul: "np_mul (stride2 ?f) (stride2 (drop 1 ?f)) =
             Inr (map (\<lambda>k. flat_at ?n S (2 * k) * flat_at ?n S (2 * k + 1)) [0..<?m])"
    using la lb pr by (simp add: np_mul_def)
  have ne: "map (\<lambda>k. flat_at ?n S (2 * k) * flat_at ?n S (2 * k + 1)) [0..<?m] \<noteq> []"
    using mpos by simp
  show ?thesis
    unfolding staggered_def Let_def mul
    using ne by (simp add: np_mean_def spec_staggered_def)
qed

lemma square_not_2_3: "(n::nat) * n \<noteq> 2 \<and> n * n \<noteq> 3"
proof (cases "n \<le> 1")
  case True
  then have "n = 0 \<or> n = 1" by auto
  then show ?thesis by auto
next
  case False
  then have "2 \<le> n" by simp
  then have "2 * 2 \<le> n * n" using mult_le_mono[of 2 n 2 n] by simp
  then show ?thesis by simp
qed

lemma staggered_odd:
  assumes "lattice_ok N S" "odd N" "3 \<le> N"
  shows "length (stride2 (concat S)) = (nat N * nat N + 1) div 2
       \<and> length (stride2 (drop 1 (concat S))) = (nat N * nat N - 1) div 2
       \<and> staggered S = Inl BroadcastError"
proof -
  let ?f = "concat S"
  define L where "L = nat N * nat N"
  from assms have on: "odd (nat N)" and n3: "3 \<le> nat N"
    by (simp_all add: even_nat_iff)
  have len: "length ?f = L"
    unfolding L_def by (rule lattice_ok_length_concat[OF assms(1)])
  from on have ol: "odd L" by (simp add: L_def)
  from n3 have "3 * 3 \<le> L" unfolding L_def using mult_le_mono[of 3 "nat N" 3 "nat N"] by simp
  then have big: "9 \<le> L" by simp
  have la: "length (stride2 ?f) = (L + 1) div 2"
    by (simp add: length_stride2 len)
  have "length (stride2 (drop (Suc 0) ?f)) = L div 2"
    by (simp add: length_stride2_drop len)
  also have "L div 2 = (L - 1) div 2" using ol by presburger
  finally have lb: "length (stride2 (drop (Suc 0) ?f)) = (L - 1) div 2" .
  have ne: "(L + 1) div 2 \<noteq> (L - 1) div 2" using ol big by presburger
  have n1: "(L + 1) div 2 \<noteq> 1" "(L - 1) div 2 \<noteq> 1" using big by presburger+
  have "np_mul (stride2 ?f) (stride2 (drop (Suc 0) ?f)) = Inl BroadcastError"
    unfolding np_mul_def la lb using ne n1 by simp
  then have "staggered S = Inl BroadcastError" by (simp add: staggered_def Let_def)
  with la lb show ?thesis by (simp add: L_def)
qed

lemma staggered_ok_iff:
  assumes "lattice_ok N S"
  shows "(\<exists>v. staggered S = Inr v) \<longleftrightarrow> (even N \<or> N = 1)"
proof -
  let ?f = "concat S"
  define L where "L = nat N * nat N"
  from assms have N0: "0 \<le> N" by (auto simp: lattice_ok_def)
  have len: "length ?f = L"
    unfolding L_def by (rule lattice_ok_length_concat[OF assms])
  have la: "length (stride2 ?f) = (L + 1) div 2"
    by (simp add: length_stride2 len)
  have lb: "length (stride2 (drop (Suc 0) ?f)) = L div 2"
    by (simp add: length_stride2_drop len)
  have "(\<exists>v. staggered S = Inr v) \<longleftrightarrow>
        \<not> ((L + 1) div 2 \<noteq> L div 2 \<and> (L + 1) div 2 \<noteq> 1 \<and> L div 2 \<noteq> 1)"
    unfolding staggered_def Let_def np_mul_def One_nat_def la lb by simp
  also have "\<dots> \<longleftrightarrow> (even L \<or> L = 1 \<or> L = 2 \<or> L = 3)"
    by presburger
  also have "\<dots> \<longleftrightarrow> (even L \<or> L = 1)"
    using square_not_2_3[of "nat N"] by (auto simp: L_def)
  also have "\<dots> \<longleftrightarrow> (even (nat N) \<or> nat N = 1)" by (simp add: L_def)
  also have "\<dots> \<longleftrightarrow> (even N \<or> N = 1)"
    using N0 by (auto simp: even_nat_iff)
  finally show ?thesis .
qed

lemma staggered_shape:
  "lattice_ok N S \<Longrightarrow> lattice_ok N S' \<Longrightarrow> staggered S = Inr v \<Longrightarrow> \<exists>v'. staggered S' = Inr v'"
  using staggered_ok_iff by blast

section \<open>Initialisation, one iteration, and the loop\<close>

lemma step_Inr:
  assumes "step p N st idx d = Inr st'"
  shows "0 < N \<and> idx < length (M st) \<and> idx < length (MS st)
       \<and> spins st' = attempt p N (spins st) d
       \<and> M st' = (M st)[idx := (real idx, magnetization (spins st'))]
       \<and> (\<exists>v. staggered (spins st') = Inr v \<and> MS st' = (MS st)[idx := (real idx, v)])"
  using assms
  by (auto simp: step_def setrow_def Let_def split: if_splits sum.splits)

lemma step_total:
  assumes "0 < N" "idx < length (M st)" "idx < length (MS st)"
    "staggered (attempt p N (spins st) d) = Inr v"
  shows "step p N st idx d =
         Inr \<lparr>spins = attempt p N (spins st) d,
              M = (M st)[idx := (real idx, magnetization (attempt p N (spins st) d))],
              MS = (MS st)[idx := (real idx, v)]\<rparr>"
  using assms by (simp add: step_def setrow_def Let_def)

lemma init_Inr:
  assumes "init N Steps rnd = Inr st0"
  shows "0 \<le> N \<and> 0 < Steps \<and> spins st0 = init_spins (nat N) rnd
       \<and> M st0 = (replicate (nat Steps) (0, Fin 0))[0 := (0, magnetization (spins st0))]
       \<and> (\<exists>v. staggered (spins st0) = Inr v
              \<and> MS st0 = (replicate (nat Steps) (0, Fin 0))[0 := (0, v)])"
  using assms
  by (auto simp: init_def setrow_def Let_def split: if_splits sum.splits)

lemma init_total:
  assumes "0 \<le> N" "0 < Steps" "staggered (init_spins (nat N) rnd) = Inr v"
  shows "init N Steps rnd =
         Inr \<lparr>spins = init_spins (nat N) rnd,
              M = (replicate (nat Steps) (0, Fin 0))[0 := (0, magnetization (init_spins (nat N) rnd))],
              MS = (replicate (nat Steps) (0, Fin 0))[0 := (0, v)]\<rparr>"
  using assms by (simp add: init_def setrow_def Let_def)

lemma lattice_ok_init: "0 \<le> N \<Longrightarrow> lattice_ok N (init_spins (nat N) rnd)"
  using lattice_ok_init_spins[of "nat N" rnd] by simp

lemma run_spins_ok:
  "run_steps p N rng idx k st = Inr st' \<Longrightarrow> lattice_ok N (spins st) \<Longrightarrow> lattice_ok N (spins st')"
proof (induction k arbitrary: idx st)
  case 0
  then show ?case by simp
next
  case (Suc k)
  from Suc.prems(1) obtain st1 where s: "step p N st idx (rng idx) = Inr st1"
    and r: "run_steps p N rng (Suc idx) k st1 = Inr st'"
    by (auto split: sum.splits)
  from step_Inr[OF s] Suc.prems(2) have "lattice_ok N (spins st1)"
    by (simp add: lattice_ok_attempt)
  with Suc.IH[OF r] show ?case .
qed

lemma run_rows:
  "run_steps p N rng idx k st = Inr st' \<Longrightarrow>
   length (M st') = length (M st) \<and> length (MS st') = length (MS st)
   \<and> (\<forall>r. r < idx \<or> idx + k \<le> r \<longrightarrow> M st' ! r = M st ! r \<and> MS st' ! r = MS st ! r)
   \<and> (\<forall>r. idx \<le> r \<and> r < idx + k \<longrightarrow>
          r < length (M st) \<and> r < length (MS st)
          \<and> fst (M st' ! r) = real r \<and> fst (MS st' ! r) = real r)"
proof (induction k arbitrary: idx st)
  case 0
  then show ?case by simp
next
  case (Suc k)
  from Suc.prems obtain st1 where s: "step p N st idx (rng idx) = Inr st1"
    and r: "run_steps p N rng (Suc idx) k st1 = Inr st'"
    by (auto split: sum.splits)
  from step_Inr[OF s] obtain v where
    i1: "idx < length (M st)" and i2: "idx < length (MS st)"
    and m1: "M st1 = (M st)[idx := (real idx, magnetization (spins st1))]"
    and m2: "MS st1 = (MS st)[idx := (real idx, v)]"
    by auto
  from Suc.IH[OF r] have
    l: "length (M st') = length (M st1)" "length (MS st') = length (MS st1)"
    and out: "\<And>r. r < Suc idx \<or> Suc idx + k \<le> r \<Longrightarrow>
                 M st' ! r = M st1 ! r \<and> MS st' ! r = MS st1 ! r"
    and inn: "\<And>r. Suc idx \<le> r \<Longrightarrow> r < Suc idx + k \<Longrightarrow>
                 r < length (M st1) \<and> r < length (MS st1)
                 \<and> fst (M st' ! r) = real r \<and> fst (MS st' ! r) = real r"
    by auto
  have A: "length (M st') = length (M st) \<and> length (MS st') = length (MS st)"
    using l m1 m2 by simp
  have B: "\<forall>r. r < idx \<or> idx + Suc k \<le> r \<longrightarrow> M st' ! r = M st ! r \<and> MS st' ! r = MS st ! r"
  proof (intro allI impI)
    fix r assume h: "r < idx \<or> idx + Suc k \<le> r"
    then have "r < Suc idx \<or> Suc idx + k \<le> r" and ne: "r \<noteq> idx" by auto
    from out[OF this(1)] ne show "M st' ! r = M st ! r \<and> MS st' ! r = MS st ! r"
      by (simp add: m1 m2)
  qed
  have C: "\<forall>r. idx \<le> r \<and> r < idx + Suc k \<longrightarrow>
          r < length (M st) \<and> r < length (MS st)
          \<and> fst (M st' ! r) = real r \<and> fst (MS st' ! r) = real r"
  proof (intro allI impI)
    fix r assume h: "idx \<le> r \<and> r < idx + Suc k"
    show "r < length (M st) \<and> r < length (MS st)
          \<and> fst (M st' ! r) = real r \<and> fst (MS st' ! r) = real r"
    proof (cases "r = idx")
      case True
      have "M st' ! idx = M st1 ! idx \<and> MS st' ! idx = MS st1 ! idx"
        by (rule out) simp
      with True i1 i2 show ?thesis by (simp add: m1 m2)
    next
      case False
      with h have "Suc idx \<le> r" "r < Suc idx + k" by auto
      from inn[OF this] show ?thesis by (simp add: m1 m2)
    qed
  qed
  from A B C show ?case by blast
qed

lemma run_total:
  assumes "0 < N" "even N \<or> N = 1"
  shows "lattice_ok N (spins st) \<Longrightarrow> idx + k \<le> length (M st) \<Longrightarrow> idx + k \<le> length (MS st)
         \<Longrightarrow> \<exists>st'. run_steps p N rng idx k st = Inr st'"
proof (induction k arbitrary: idx st)
  case 0
  then show ?case by simp
next
  case (Suc k)
  let ?S = "attempt p N (spins st) (rng idx)"
  have ok: "lattice_ok N ?S" using Suc.prems(1) by (rule lattice_ok_attempt)
  with assms(2) obtain v where v: "staggered ?S = Inr v"
    using staggered_ok_iff by blast
  from Suc.prems have i: "idx < length (M st)" "idx < length (MS st)" by simp_all
  let ?st1 = "\<lparr>spins = ?S, M = (M st)[idx := (real idx, magnetization ?S)],
               MS = (MS st)[idx := (real idx, v)]\<rparr>"
  have s: "step p N st idx (rng idx) = Inr ?st1"
    by (rule step_total[OF assms(1) i v])
  have "\<exists>st'. run_steps p N rng (Suc idx) k ?st1 = Inr st'"
    using Suc.prems ok by (intro Suc.IH) simp_all
  with s show ?case by simp
qed

section \<open>A concrete run of two steps\<close>

text \<open>
  On the \<open>2 \<times> 2\<close> lattice of all \<open>+1\<close> with the notebook's parameters, the first iteration
  finds \<open>dE = -20\<close> at \<open>(0, 0)\<close> and flips; the second finds \<open>dE = 20\<close> there, and
  \<open>1/2 < exp(-20/3)\<close> is false, so it does not.
\<close>

lemma init_spins_all_up: "init_spins 2 all_up = [[1, 1], [1, 1]]"
  by (simp add: init_spins_def upt_rec numeral_2_eq_2)

lemma demo_init:
  "init 2 2 all_up =
     Inr \<lparr>spins = [[1, 1], [1, 1]], M = [(0, Fin 1), (0, Fin 0)], MS = [(0, Fin (- 1)), (0, Fin 0)]\<rparr>"
proof -
  have r: "replicate 2 (0::real, Fin 0) = [(0, Fin 0), (0, Fin 0)]"
    by (simp add: numeral_2_eq_2)
  have n: "nat 2 = 2" by simp
  show ?thesis
    unfolding init_def n r init_spins_all_up
    by (simp add: Let_def setrow_def magnetization_def np_mean_def staggered_def np_mul_def)
qed

lemma demo_attempt0: "attempt notebook_params 2 [[1, 1], [1, 1]] corner_draw = [[- 1, 1], [1, 1]]"
  by (simp add: attempt_def deltaE_def cell_def accept_def flip_def)

lemma demo_attempt1: "attempt notebook_params 2 [[- 1, 1], [1, 1]] corner_draw = [[- 1, 1], [1, 1]]"
proof -
  have "\<not> (1 / 2 < exp (- (20 / 3 :: real)))"
    using exp_neg_bound[of "20 / 3"] by simp
  then show ?thesis
    by (simp add: attempt_def deltaE_def cell_def accept_def flip_def)
qed

lemma demo_step0:
  "step notebook_params 2
     \<lparr>spins = [[1, 1], [1, 1]], M = [(0, Fin 1), (0, Fin 0)], MS = [(0, Fin (- 1)), (0, Fin 0)]\<rparr>
     0 corner_draw =
   Inr \<lparr>spins = [[- 1, 1], [1, 1]], M = [(0, Fin (1 / 2)), (0, Fin 0)],
        MS = [(0, Fin 0), (0, Fin 0)]\<rparr>"
  by (simp add: step_def demo_attempt0 Let_def setrow_def magnetization_def np_mean_def
      staggered_def np_mul_def)

lemma demo_step1:
  "step notebook_params 2
     \<lparr>spins = [[- 1, 1], [1, 1]], M = [(0, Fin (1 / 2)), (0, Fin 0)],
      MS = [(0, Fin 0), (0, Fin 0)]\<rparr>
     1 corner_draw =
   Inr \<lparr>spins = [[- 1, 1], [1, 1]], M = [(0, Fin (1 / 2)), (1, Fin (1 / 2))],
        MS = [(0, Fin 0), (1, Fin 0)]\<rparr>"
  by (simp add: step_def demo_attempt1 Let_def setrow_def magnetization_def np_mean_def
      staggered_def np_mul_def)

lemma demo_run:
  "run_steps notebook_params 2 corner_rng 0 2
     \<lparr>spins = [[1, 1], [1, 1]], M = [(0, Fin 1), (0, Fin 0)], MS = [(0, Fin (- 1)), (0, Fin 0)]\<rparr> =
   Inr \<lparr>spins = [[- 1, 1], [1, 1]], M = [(0, Fin (1 / 2)), (1, Fin (1 / 2))],
        MS = [(0, Fin 0), (1, Fin 0)]\<rparr>"
  using demo_step0 demo_step1 by (simp add: numeral_2_eq_2)

lemma demo_run_tail:
  "run_steps notebook_params 2 corner_rng 1 1
     \<lparr>spins = [[- 1, 1], [1, 1]], M = [(0, Fin (1 / 2)), (0, Fin 0)],
      MS = [(0, Fin 0), (0, Fin 0)]\<rparr> =
   Inr \<lparr>spins = [[- 1, 1], [1, 1]], M = [(0, Fin (1 / 2)), (1, Fin (1 / 2))],
        MS = [(0, Fin 0), (1, Fin 0)]\<rparr>"
  using demo_step1 by simp

section \<open>The Metropolis rule\<close>

text \<open>
  Claim C2. In one iteration the site \<open>(i, j)\<close> and the number \<open>u\<close> come from the random source
  (here the draw \<open>d\<close>, within the source's contract: \<open>0 \<le> i, j < N\<close>, \<open>0 \<le> u < 1\<close>). With
  \<open>delta = deltaE(S, i, j)\<close> the flip is accepted if \<open>delta < 0\<close>, and otherwise exactly when
  \<open>u < exp(- delta / kBT)\<close>. On acceptance the new lattice has the spin at \<open>(i, j)\<close> negated
  and every other cell and the shape unchanged; on rejection the lattice is the old one.
  A call of the iteration with \<open>idx\<close> inside both arrays and \<open>N\<close> even or \<open>1\<close> returns, and
  the lattice of the state it returns is the result of this attempt.
  The division presupposes \<open>kBT \<noteq> 0\<close>. That the site and \<open>u\<close> are uniformly distributed is
  a property of the random source, which is an input here.
\<close>

theorem attempt_metropolis:
  assumes "lattice_ok N S" "draw_ok N d" "kBT p \<noteq> 0"
  shows "attempt p N S d =
           (if deltaE p N S (site_i d) (site_j d) < 0
               \<or> unif d < exp (- deltaE p N S (site_i d) (site_j d) / kBT p)
            then flip S (site_i d) (site_j d) else S)
         \<and> length (flip S (site_i d) (site_j d)) = length S
         \<and> (\<forall>a < nat N. \<forall>b < nat N.
               flip S (site_i d) (site_j d) ! a ! b =
                 (if a = site_i d \<and> b = site_j d then - (S ! a ! b) else S ! a ! b))
         \<and> (spins st = S \<and> step p N st idx d = Inr st' \<longrightarrow> spins st' = attempt p N S d)
         \<and> (spins st = S \<and> idx < length (M st) \<and> idx < length (MS st) \<and> (even N \<or> N = 1) \<longrightarrow>
               (\<exists>st''. step p N st idx d = Inr st''
                  \<and> spins st'' =
                      (if deltaE p N S (site_i d) (site_j d) < 0
                          \<or> unif d < exp (- deltaE p N S (site_i d) (site_j d) / kBT p)
                       then flip S (site_i d) (site_j d) else S)))"
proof -
  from lattice_ok_dims[OF assms(1)]
  have len: "length S = nat N" and row: "\<And>a. a < nat N \<Longrightarrow> length (S ! a) = nat N"
    by auto
  from assms(2) have npos: "0 < N" by (auto simp: draw_ok_def)
  have att: "attempt p N S d =
           (if deltaE p N S (site_i d) (site_j d) < 0
               \<or> unif d < exp (- deltaE p N S (site_i d) (site_j d) / kBT p)
            then flip S (site_i d) (site_j d) else S)"
    using assms(3) by (simp add: attempt_def accept_def Let_def)
  have cells: "\<forall>a < nat N. \<forall>b < nat N.
               flip S (site_i d) (site_j d) ! a ! b =
                 (if a = site_i d \<and> b = site_j d then - (S ! a ! b) else S ! a ! b)"
    using len row by (simp add: flip_nth)
  have ret: "spins st = S \<and> step p N st idx d = Inr st' \<longrightarrow> spins st' = attempt p N S d"
    using step_Inr[of p N st idx d st'] by auto
  have runs: "spins st = S \<and> idx < length (M st) \<and> idx < length (MS st) \<and> (even N \<or> N = 1) \<longrightarrow>
               (\<exists>st''. step p N st idx d = Inr st'' \<and> spins st'' = attempt p N S d)"
  proof
    assume h: "spins st = S \<and> idx < length (M st) \<and> idx < length (MS st) \<and> (even N \<or> N = 1)"
    then have sp: "spins st = S" and i: "idx < length (M st)" "idx < length (MS st)"
      and par: "even N \<or> N = 1" by simp_all
    have ok: "lattice_ok N (attempt p N (spins st) d)"
      unfolding sp using assms(1) by (rule lattice_ok_attempt)
    with par obtain v where v: "staggered (attempt p N (spins st) d) = Inr v"
      using staggered_ok_iff by blast
    from step_total[OF npos i v] sp
    show "\<exists>st''. step p N st idx d = Inr st'' \<and> spins st'' = attempt p N S d"
      by simp
  qed
  from att cells ret runs show ?thesis
    by (simp only: flip_length)
qed

theorem attempt_metropolis_witness:
  "lattice_ok 2 [[1, 1], [1, 1]] \<and> draw_ok 2 \<lparr>site_i = 0, site_j = 0, unif = 1 / 2\<rparr>
   \<and> kBT \<lparr>J = - 2, B = - 2, kBT = 3\<rparr> \<noteq> 0
   \<and> deltaE \<lparr>J = - 2, B = - 2, kBT = 3\<rparr> 2 [[1, 1], [1, 1]] 0 0 = - 20
   \<and> attempt \<lparr>J = - 2, B = - 2, kBT = 3\<rparr> 2 [[1, 1], [1, 1]]
        \<lparr>site_i = 0, site_j = 0, unif = 1 / 2\<rparr> = [[- 1, 1], [1, 1]]
   \<and> step \<lparr>J = - 2, B = - 2, kBT = 3\<rparr> 2
        \<lparr>spins = [[1, 1], [1, 1]], M = [(0, Fin 1), (0, Fin 0)],
         MS = [(0, Fin (- 1)), (0, Fin 0)]\<rparr> 0
        \<lparr>site_i = 0, site_j = 0, unif = 1 / 2\<rparr> =
       Inr \<lparr>spins = [[- 1, 1], [1, 1]], M = [(0, Fin (1 / 2)), (0, Fin 0)],
            MS = [(0, Fin 0), (0, Fin 0)]\<rparr>
   \<and> lattice_ok 2 [[- 1, 1], [1, 1]]
   \<and> deltaE \<lparr>J = - 2, B = - 2, kBT = 3\<rparr> 2 [[- 1, 1], [1, 1]] 0 0 = 20
   \<and> attempt \<lparr>J = - 2, B = - 2, kBT = 3\<rparr> 2 [[- 1, 1], [1, 1]]
        \<lparr>site_i = 0, site_j = 0, unif = 1 / 2\<rparr> = [[- 1, 1], [1, 1]]
   \<and> step \<lparr>J = - 2, B = - 2, kBT = 3\<rparr> 2
        \<lparr>spins = [[- 1, 1], [1, 1]], M = [(0, Fin (1 / 2)), (0, Fin 0)],
         MS = [(0, Fin 0), (0, Fin 0)]\<rparr> 1
        \<lparr>site_i = 0, site_j = 0, unif = 1 / 2\<rparr> =
       Inr \<lparr>spins = [[- 1, 1], [1, 1]], M = [(0, Fin (1 / 2)), (1, Fin (1 / 2))],
            MS = [(0, Fin 0), (1, Fin 0)]\<rparr>"
proof -
  let ?p = "\<lparr>J = - 2, B = - 2, kBT = 3\<rparr>"
  let ?d = "\<lparr>site_i = 0, site_j = 0, unif = 1 / 2\<rparr>"
  let ?st0 = "\<lparr>spins = [[1, 1], [1, 1]], M = [(0 :: real, Fin 1), (0, Fin 0)],
               MS = [(0 :: real, Fin (- 1)), (0, Fin 0)]\<rparr>"
  let ?st1 = "\<lparr>spins = [[- 1, 1], [1, 1]], M = [(0 :: real, Fin (1 / 2)), (0, Fin 0)],
               MS = [(0 :: real, Fin 0), (0, Fin 0)]\<rparr>"
  have ok1: "lattice_ok 2 [[1, 1], [1, 1]]" and ok2: "lattice_ok 2 [[- 1, 1], [1, 1]]"
    by (simp_all add: lattice_ok_def)
  have d: "draw_ok 2 ?d" by (simp add: draw_ok_def)
  have k: "kBT ?p \<noteq> 0" by simp
  have e1: "deltaE ?p 2 [[1, 1], [1, 1]] 0 0 = - 20"
    and e2: "deltaE ?p 2 [[- 1, 1], [1, 1]] 0 0 = 20"
    by (simp_all add: deltaE_def cell_def)
  have b: "\<not> (1 / 2 < exp (- (20 / 3 :: real)))"
    using exp_neg_bound[of "20 / 3"] by simp
  have a1: "attempt ?p 2 [[1, 1], [1, 1]] ?d = [[- 1, 1], [1, 1]]"
    using attempt_metropolis[OF ok1 d k] e1 by (simp add: flip_def)
  have a2: "attempt ?p 2 [[- 1, 1], [1, 1]] ?d = [[- 1, 1], [1, 1]]"
    using attempt_metropolis[OF ok2 d k] e2 b by simp
  have h0: "spins ?st0 = [[1, 1], [1, 1]] \<and> 0 < length (M ?st0) \<and> 0 < length (MS ?st0)
            \<and> (even (2::int) \<or> (2::int) = 1)" by simp
  have h1: "spins ?st1 = [[- 1, 1], [1, 1]] \<and> 1 < length (M ?st1) \<and> 1 < length (MS ?st1)
            \<and> (even (2::int) \<or> (2::int) = 1)" by simp
  from attempt_metropolis[OF ok1 d k, of ?st0 0] h0
  obtain sa where sa: "step ?p 2 ?st0 0 ?d = Inr sa" by blast
  from attempt_metropolis[OF ok2 d k, of ?st1 1] h1
  obtain sb where sb: "step ?p 2 ?st1 1 ?d = Inr sb" by blast
  from sa demo_step0 have s1: "step ?p 2 ?st0 0 ?d = Inr ?st1" by simp
  from sb demo_step1 have s2: "step ?p 2 ?st1 1 ?d =
      Inr \<lparr>spins = [[- 1, 1], [1, 1]], M = [(0, Fin (1 / 2)), (1, Fin (1 / 2))],
           MS = [(0, Fin 0), (1, Fin 0)]\<rparr>" by simp
  from ok1 ok2 d k e1 e2 a1 a2 s1 s2 show ?thesis by simp
qed

section \<open>The lattice invariant\<close>

text \<open>
  Claim C3. For every \<open>N > 0\<close>: the randomly initialised lattice is \<open>N \<times> N\<close> with every cell
  \<open>+1\<close> or \<open>-1\<close>; a flip attempt on such a lattice, accepted or rejected, yields such a
  lattice; and so the lattice of the initial state and of every state reached from it by any
  number \<open>k\<close> of executed steps is \<open>N \<times> N\<close> with every cell \<open>+1\<close> or \<open>-1\<close>.
\<close>

theorem spins_invariant:
  assumes "0 < N"
  shows "lattice_ok N (init_spins (nat N) rnd)
       \<and> (lattice_ok N S \<longrightarrow> lattice_ok N (attempt p N S d))
       \<and> (init N Steps rnd = Inr st0 \<and> run_steps p N rng 0 k st0 = Inr st \<longrightarrow>
            lattice_ok N (spins st0) \<and> lattice_ok N (spins st))"
proof -
  from assms have a: "lattice_ok N (init_spins (nat N) rnd)"
    by (simp add: lattice_ok_init)
  have b: "lattice_ok N S \<longrightarrow> lattice_ok N (attempt p N S d)"
    by (simp add: lattice_ok_attempt)
  have c: "init N Steps rnd = Inr st0 \<and> run_steps p N rng 0 k st0 = Inr st \<longrightarrow>
            lattice_ok N (spins st0) \<and> lattice_ok N (spins st)"
  proof
    assume h: "init N Steps rnd = Inr st0 \<and> run_steps p N rng 0 k st0 = Inr st"
    with init_Inr[of N Steps rnd st0] a have ok0: "lattice_ok N (spins st0)" by simp
    from h have "run_steps p N rng 0 k st0 = Inr st" by simp
    from run_spins_ok[OF this ok0] ok0
    show "lattice_ok N (spins st0) \<and> lattice_ok N (spins st)" by simp
  qed
  from a b c show ?thesis by simp
qed

theorem spins_invariant_witness:
  "(0::int) < 2
   \<and> lattice_ok 2 (init_spins 2 all_up)
   \<and> lattice_ok 2 (attempt notebook_params 2 [[1, 1], [1, 1]] corner_draw)
   \<and> init 2 2 all_up =
       Inr \<lparr>spins = [[1, 1], [1, 1]], M = [(0, Fin 1), (0, Fin 0)],
            MS = [(0, Fin (- 1)), (0, Fin 0)]\<rparr>
   \<and> run_steps notebook_params 2 corner_rng 0 2
        \<lparr>spins = [[1, 1], [1, 1]], M = [(0, Fin 1), (0, Fin 0)],
         MS = [(0, Fin (- 1)), (0, Fin 0)]\<rparr> =
       Inr \<lparr>spins = [[- 1, 1], [1, 1]], M = [(0, Fin (1 / 2)), (1, Fin (1 / 2))],
            MS = [(0, Fin 0), (1, Fin 0)]\<rparr>
   \<and> lattice_ok 2 [[1, 1], [1, 1]] \<and> lattice_ok 2 [[- 1, 1], [1, 1]]"
  using spins_invariant[of 2 all_up "[[1, 1], [1, 1]]" notebook_params corner_draw 2
      "\<lparr>spins = [[1, 1], [1, 1]], M = [(0, Fin 1), (0, Fin 0)],
        MS = [(0, Fin (- 1)), (0, Fin 0)]\<rparr>" corner_rng 2
      "\<lparr>spins = [[- 1, 1], [1, 1]], M = [(0, Fin (1 / 2)), (1, Fin (1 / 2))],
        MS = [(0, Fin 0), (1, Fin 0)]\<rparr>"]
    demo_init demo_run
  by (simp add: init_spins_all_up demo_attempt0)

section \<open>The observable series\<close>

text \<open>
  Claim C4. With the two arrays allocated with \<open>Steps\<close> rows (\<open>Steps \<ge> 0\<close>), after the loop
  has executed its \<open>Steps\<close> iterations each array has exactly \<open>Steps\<close> rows and the step-index
  components are \<open>0, 1, \<dots>, Steps - 1\<close> in order. The loop does complete when \<open>N\<close> is positive
  and even and the lattice is \<open>N \<times> N\<close>.
\<close>

theorem series_indices:
  assumes "length (M st0) = Steps" "length (MS st0) = Steps"
  shows "(run_steps p N rng 0 Steps st0 = Inr st \<longrightarrow>
            length (M st) = Steps \<and> length (MS st) = Steps
            \<and> map fst (M st) = map real [0..<Steps]
            \<and> map fst (MS st) = map real [0..<Steps])
       \<and> (0 < N \<and> even N \<and> lattice_ok N (spins st0) \<longrightarrow>
            (\<exists>st'. run_steps p N rng 0 Steps st0 = Inr st'))"
proof -
  have a: "run_steps p N rng 0 Steps st0 = Inr st \<longrightarrow>
            length (M st) = Steps \<and> length (MS st) = Steps
            \<and> map fst (M st) = map real [0..<Steps]
            \<and> map fst (MS st) = map real [0..<Steps]"
  proof
    assume r: "run_steps p N rng 0 Steps st0 = Inr st"
    from run_rows[OF r] assms have
      l: "length (M st) = Steps" "length (MS st) = Steps"
      and ix: "\<And>r. r < Steps \<Longrightarrow> fst (M st ! r) = real r \<and> fst (MS st ! r) = real r"
      by auto
    have "map fst (M st) = map real [0..<Steps]"
      by (rule nth_equalityI) (simp_all add: l ix)
    moreover have "map fst (MS st) = map real [0..<Steps]"
      by (rule nth_equalityI) (simp_all add: l ix)
    ultimately show "length (M st) = Steps \<and> length (MS st) = Steps
            \<and> map fst (M st) = map real [0..<Steps]
            \<and> map fst (MS st) = map real [0..<Steps]"
      using l by simp
  qed
  have b: "0 < N \<and> even N \<and> lattice_ok N (spins st0) \<longrightarrow>
            (\<exists>st'. run_steps p N rng 0 Steps st0 = Inr st')"
    using run_total[of N st0 0 Steps p rng] assms by simp
  from a b show ?thesis by simp
qed

theorem series_indices_witness:
  "length (M \<lparr>spins = [[1, 1], [1, 1]], M = [(0, Fin 1), (0, Fin 0)],
              MS = [(0, Fin (- 1)), (0, Fin 0)]\<rparr>) = 2
   \<and> length (MS \<lparr>spins = [[1, 1], [1, 1]], M = [(0, Fin 1), (0, Fin 0)],
              MS = [(0, Fin (- 1)), (0, Fin 0)]\<rparr>) = 2
   \<and> (0::int) < 2 \<and> even (2::int) \<and> lattice_ok 2 [[1, 1], [1, 1]]
   \<and> run_steps notebook_params 2 corner_rng 0 2
        \<lparr>spins = [[1, 1], [1, 1]], M = [(0, Fin 1), (0, Fin 0)],
         MS = [(0, Fin (- 1)), (0, Fin 0)]\<rparr> =
       Inr \<lparr>spins = [[- 1, 1], [1, 1]], M = [(0, Fin (1 / 2)), (1, Fin (1 / 2))],
            MS = [(0, Fin 0), (1, Fin 0)]\<rparr>
   \<and> map fst [(0::real, Fin (1 / 2)), (1, Fin (1 / 2))] = map real [0..<2]
   \<and> map fst [(0::real, Fin 0), (1, Fin 0)] = map real [0..<2]"
  using series_indices[of "\<lparr>spins = [[1, 1], [1, 1]], M = [(0, Fin 1), (0, Fin 0)],
        MS = [(0, Fin (- 1)), (0, Fin 0)]\<rparr>" 2 notebook_params 2 corner_rng
      "\<lparr>spins = [[- 1, 1], [1, 1]], M = [(0, Fin (1 / 2)), (1, Fin (1 / 2))],
        MS = [(0, Fin 0), (1, Fin 0)]\<rparr>"]
    demo_run
  by (simp add: lattice_ok_def)

text \<open>
  Claim C8, as amended. The iterations \<open>idx, \<dots>, idx + k - 1\<close> of the loop leave the number of
  rows of both arrays as it is, write the rows \<open>idx, \<dots>, idx + k - 1\<close> (each with its own
  step index) and change no other row. So one iteration writes exactly one row of each
  array, and a row written by an iteration is never changed by a later one.
\<close>

theorem rows_written_once:
  assumes "run_steps p N rng idx k st = Inr st'"
  shows "length (M st') = length (M st) \<and> length (MS st') = length (MS st)
       \<and> (\<forall>r. r < idx \<or> idx + k \<le> r \<longrightarrow> M st' ! r = M st ! r \<and> MS st' ! r = MS st ! r)
       \<and> (\<forall>r. idx \<le> r \<and> r < idx + k \<longrightarrow> fst (M st' ! r) = real r \<and> fst (MS st' ! r) = real r)"
  using run_rows[OF assms] by simp

theorem rows_written_once_witness:
  "run_steps notebook_params 2 corner_rng 1 1
     \<lparr>spins = [[- 1, 1], [1, 1]], M = [(0, Fin (1 / 2)), (0, Fin 0)],
      MS = [(0, Fin 0), (0, Fin 0)]\<rparr> =
   Inr \<lparr>spins = [[- 1, 1], [1, 1]], M = [(0, Fin (1 / 2)), (1, Fin (1 / 2))],
        MS = [(0, Fin 0), (1, Fin 0)]\<rparr>
   \<and> [(0::real, Fin (1 / 2)), (1, Fin (1 / 2))] ! 0 = [(0, Fin (1 / 2)), (0, Fin 0)] ! 0
   \<and> [(0::real, Fin 0), (1, Fin 0)] ! 0 = [(0, Fin 0), (0, Fin 0)] ! 0
   \<and> fst ([(0::real, Fin (1 / 2)), (1, Fin (1 / 2))] ! 1) = real 1
   \<and> fst ([(0::real, Fin 0), (1, Fin 0)] ! 1) = real 1"
  using rows_written_once[OF demo_run_tail] demo_run_tail by simp

text \<open>
  Claim C8 as it is written fails for the entry seeded before the loop: the seed is row \<open>0\<close>,
  with step index \<open>0\<close>, and the iteration \<open>idx = 0\<close> writes row \<open>0\<close> again. In the concrete run
  \<^verbatim>\<open>M[0]\<close> is seeded as \<open>(0, 1)\<close> and becomes \<open>(0, 1/2)\<close>, \<^verbatim>\<open>MS[0]\<close> is seeded as \<open>(0, -1)\<close> and
  becomes \<open>(0, 0)\<close>.
\<close>

theorem seed_overwritten_counterexample:
  "init 2 2 all_up =
     Inr \<lparr>spins = [[1, 1], [1, 1]], M = [(0, Fin 1), (0, Fin 0)],
          MS = [(0, Fin (- 1)), (0, Fin 0)]\<rparr>
   \<and> step notebook_params 2
        \<lparr>spins = [[1, 1], [1, 1]], M = [(0, Fin 1), (0, Fin 0)],
         MS = [(0, Fin (- 1)), (0, Fin 0)]\<rparr> 0 corner_draw =
       Inr \<lparr>spins = [[- 1, 1], [1, 1]], M = [(0, Fin (1 / 2)), (0, Fin 0)],
            MS = [(0, Fin 0), (0, Fin 0)]\<rparr>
   \<and> [(0::real, Fin 1), (0, Fin 0)] ! 0 \<noteq> [(0, Fin (1 / 2)), (0, Fin 0)] ! 0
   \<and> [(0::real, Fin (- 1)), (0, Fin 0)] ! 0 \<noteq> [(0, Fin 0), (0, Fin 0)] ! 0"
  using demo_init demo_step0 by simp

text \<open>
  Claim C7. For positive even \<open>N\<close>: an iteration on an \<open>N \<times> N\<close> lattice of \<open>+1\<close>/\<open>-1\<close> completes,
  and the values it stores for its step are, for the lattice after the flip attempt, the
  arithmetic mean of all \<open>N \<times> N\<close> cells and the negative of the mean of the products of the
  spins at the even positions \<open>2k\<close> with the spins at the odd positions \<open>2k + 1\<close> of the
  row-major flattening. The seeded entries are the same two formulas on the initial lattice.
\<close>

theorem observables_recorded:
  assumes "0 < N" "even N"
  shows "(lattice_ok N (spins st) \<and> idx < length (M st) \<and> idx < length (MS st) \<longrightarrow>
           (\<exists>st'. step p N st idx d = Inr st'
              \<and> spins st' = attempt p N (spins st) d
              \<and> M st' ! idx = (real idx, Fin (spec_magnetization (nat N) (spins st')))
              \<and> MS st' ! idx = (real idx, Fin (spec_staggered (nat N) (spins st')))))
       \<and> (0 < Steps \<longrightarrow>
           (\<exists>st0. init N Steps rnd = Inr st0
              \<and> spins st0 = init_spins (nat N) rnd
              \<and> M st0 ! 0 = (0, Fin (spec_magnetization (nat N) (spins st0)))
              \<and> MS st0 ! 0 = (0, Fin (spec_staggered (nat N) (spins st0)))))"
proof -
  have a: "lattice_ok N (spins st) \<and> idx < length (M st) \<and> idx < length (MS st) \<longrightarrow>
           (\<exists>st'. step p N st idx d = Inr st'
              \<and> spins st' = attempt p N (spins st) d
              \<and> M st' ! idx = (real idx, Fin (spec_magnetization (nat N) (spins st')))
              \<and> MS st' ! idx = (real idx, Fin (spec_staggered (nat N) (spins st'))))"
  proof
    assume h: "lattice_ok N (spins st) \<and> idx < length (M st) \<and> idx < length (MS st)"
    let ?S = "attempt p N (spins st) d"
    from h have ok: "lattice_ok N ?S" by (simp add: lattice_ok_attempt)
    have m: "magnetization ?S = Fin (spec_magnetization (nat N) ?S)"
      by (rule magnetization_spec[OF ok assms(1)])
    have s: "staggered ?S = Inr (Fin (spec_staggered (nat N) ?S))"
      by (rule staggered_even[OF ok assms])
    from h have i: "idx < length (M st)" "idx < length (MS st)" by simp_all
    show "\<exists>st'. step p N st idx d = Inr st'
              \<and> spins st' = attempt p N (spins st) d
              \<and> M st' ! idx = (real idx, Fin (spec_magnetization (nat N) (spins st')))
              \<and> MS st' ! idx = (real idx, Fin (spec_staggered (nat N) (spins st')))"
      using step_total[OF assms(1) i s] i by (simp add: m)
  qed
  have b: "0 < Steps \<longrightarrow>
           (\<exists>st0. init N Steps rnd = Inr st0
              \<and> spins st0 = init_spins (nat N) rnd
              \<and> M st0 ! 0 = (0, Fin (spec_magnetization (nat N) (spins st0)))
              \<and> MS st0 ! 0 = (0, Fin (spec_staggered (nat N) (spins st0))))"
  proof
    assume st: "0 < Steps"
    let ?S = "init_spins (nat N) rnd"
    from assms(1) have ok: "lattice_ok N ?S" by (simp add: lattice_ok_init)
    have m: "magnetization ?S = Fin (spec_magnetization (nat N) ?S)"
      by (rule magnetization_spec[OF ok assms(1)])
    have s: "staggered ?S = Inr (Fin (spec_staggered (nat N) ?S))"
      by (rule staggered_even[OF ok assms])
    from assms(1) have n0: "0 \<le> N" by simp
    from st have l: "0 < length (replicate (nat Steps) (0::real, Fin 0))" by simp
    show "\<exists>st0. init N Steps rnd = Inr st0
              \<and> spins st0 = init_spins (nat N) rnd
              \<and> M st0 ! 0 = (0, Fin (spec_magnetization (nat N) (spins st0)))
              \<and> MS st0 ! 0 = (0, Fin (spec_staggered (nat N) (spins st0)))"
      using init_total[OF n0 st s] l by (simp add: m)
  qed
  from a b show ?thesis by simp
qed

theorem observables_recorded_witness:
  "(0::int) < 2 \<and> even (2::int) \<and> lattice_ok 2 [[1, 1], [1, 1]]
   \<and> step notebook_params 2
        \<lparr>spins = [[1, 1], [1, 1]], M = [(0, Fin 1), (0, Fin 0)],
         MS = [(0, Fin (- 1)), (0, Fin 0)]\<rparr> 0 corner_draw =
       Inr \<lparr>spins = [[- 1, 1], [1, 1]], M = [(0, Fin (1 / 2)), (0, Fin 0)],
            MS = [(0, Fin 0), (0, Fin 0)]\<rparr>
   \<and> spec_magnetization 2 [[- 1, 1], [1, 1]] = 1 / 2
   \<and> spec_staggered 2 [[- 1, 1], [1, 1]] = 0
   \<and> init 2 2 all_up =
       Inr \<lparr>spins = [[1, 1], [1, 1]], M = [(0, Fin 1), (0, Fin 0)],
            MS = [(0, Fin (- 1)), (0, Fin 0)]\<rparr>
   \<and> spec_magnetization 2 [[1, 1], [1, 1]] = 1
   \<and> spec_staggered 2 [[1, 1], [1, 1]] = - 1"
proof -
  let ?st0 = "\<lparr>spins = [[1, 1], [1, 1]], M = [(0 :: real, Fin 1), (0, Fin 0)],
               MS = [(0 :: real, Fin (- 1)), (0, Fin 0)]\<rparr>"
  let ?st1 = "\<lparr>spins = [[- 1, 1], [1, 1]], M = [(0 :: real, Fin (1 / 2)), (0, Fin 0)],
               MS = [(0 :: real, Fin 0), (0, Fin 0)]\<rparr>"
  have n: "(0::int) < 2" "even (2::int)" by simp_all
  have ok: "lattice_ok 2 [[1, 1], [1, 1]]" by (simp add: lattice_ok_def)
  then have h: "lattice_ok 2 (spins ?st0) \<and> 0 < length (M ?st0) \<and> 0 < length (MS ?st0)"
    by simp
  have st: "(0::int) < 2" by simp
  from observables_recorded[OF n, of ?st0 0 notebook_params corner_draw 2 all_up] h st
  obtain st' st0 where
    s: "step notebook_params 2 ?st0 0 corner_draw = Inr st'"
    and sv: "M st' ! 0 = (real 0, Fin (spec_magnetization (nat 2) (spins st')))"
            "MS st' ! 0 = (real 0, Fin (spec_staggered (nat 2) (spins st')))"
    and i: "init 2 2 all_up = Inr st0"
    and iv: "M st0 ! 0 = (0, Fin (spec_magnetization (nat 2) (spins st0)))"
            "MS st0 ! 0 = (0, Fin (spec_staggered (nat 2) (spins st0)))"
    by blast
  from s demo_step0 have e1: "st' = ?st1" by simp
  from i demo_init have e0: "st0 = ?st0" by simp
  from sv have v1: "spec_magnetization 2 [[- 1, 1], [1, 1]] = 1 / 2"
    "spec_staggered 2 [[- 1, 1], [1, 1]] = 0"
    unfolding e1 by simp_all
  from iv have v0: "spec_magnetization 2 [[1, 1], [1, 1]] = 1"
    "spec_staggered 2 [[1, 1], [1, 1]] = - 1"
    unfolding e0 by simp_all
  from n ok demo_step0 demo_init v1 v0 show ?thesis by simp
qed

section \<open>The staggered observable and the parity of N\<close>

lemma staggered_1x1:
  assumes "lattice_ok 1 S"
  shows "staggered S = Inr NaN"
proof -
  from lattice_ok_dims[OF assms] have l: "length S = 1" and r: "length (S ! 0) = 1" by auto
  from l obtain row where S: "S = [row]" by (cases S) auto
  with r obtain s where "row = [s]" by (cases row) auto
  with S show ?thesis by (simp add: staggered_def np_mul_def np_mean_def)
qed

text \<open>
  Claim C10, as amended. On an \<open>N \<times> N\<close> lattice: for every odd \<open>N \<ge> 3\<close> the even-indexed
  slice of the flattening has \<open>(N\<^sup>2 + 1) / 2\<close> elements and the odd-indexed slice
  \<open>(N\<^sup>2 - 1) / 2\<close>, and their product raises the broadcasting error; for \<open>N = 1\<close> the slices
  have one and zero elements, the product is the empty array and the observable is NaN,
  with no error; for positive even \<open>N\<close> the observable is the number the specification
  describes. So for \<open>N > 0\<close> the observable is a number exactly when \<open>N\<close> is even.
\<close>

theorem staggered_parity:
  assumes "lattice_ok N S"
  shows "(odd N \<and> 3 \<le> N \<longrightarrow>
            length (stride2 (concat S)) = (nat N * nat N + 1) div 2
          \<and> length (stride2 (drop 1 (concat S))) = (nat N * nat N - 1) div 2
          \<and> staggered S = Inl BroadcastError)
       \<and> (N = 1 \<longrightarrow> staggered S = Inr NaN)
       \<and> (0 < N \<and> even N \<longrightarrow> staggered S = Inr (Fin (spec_staggered (nat N) S)))
       \<and> (0 < N \<longrightarrow> ((\<exists>v. staggered S = Inr (Fin v)) \<longleftrightarrow> even N))"
proof -
  have a: "odd N \<and> 3 \<le> N \<longrightarrow>
            length (stride2 (concat S)) = (nat N * nat N + 1) div 2
          \<and> length (stride2 (drop 1 (concat S))) = (nat N * nat N - 1) div 2
          \<and> staggered S = Inl BroadcastError"
    using staggered_odd[OF assms] by blast
  have b: "N = 1 \<longrightarrow> staggered S = Inr NaN"
    using staggered_1x1 assms by blast
  have c: "0 < N \<and> even N \<longrightarrow> staggered S = Inr (Fin (spec_staggered (nat N) S))"
    using staggered_even[OF assms] by blast
  have d: "0 < N \<longrightarrow> ((\<exists>v. staggered S = Inr (Fin v)) \<longleftrightarrow> even N)"
  proof (intro impI iffI)
    assume "0 < N" and "\<exists>v. staggered S = Inr (Fin v)"
    then obtain v where v: "staggered S = Inr (Fin v)" by blast
    then have "even N \<or> N = 1" using staggered_ok_iff[OF assms] by blast
    moreover have "N \<noteq> 1" using b v by auto
    ultimately show "even N" by blast
  next
    assume "0 < N" and "even N"
    with c show "\<exists>v. staggered S = Inr (Fin v)" by blast
  qed
  from a b c d show ?thesis by blast
qed

theorem staggered_parity_witness:
  "lattice_ok 3 [[1, - 1, 1], [1, 1, - 1], [- 1, 1, 1]] \<and> odd (3::int) \<and> (3::int) \<le> 3
   \<and> length (stride2 (concat [[1, - 1, 1], [1, 1, - 1], [- 1, 1, 1 :: int]])) = 5
   \<and> length (stride2 (drop 1 (concat [[1, - 1, 1], [1, 1, - 1], [- 1, 1, 1 :: int]]))) = 4
   \<and> staggered [[1, - 1, 1], [1, 1, - 1], [- 1, 1, 1]] = Inl BroadcastError
   \<and> lattice_ok 2 [[- 1, 1], [1, 1]] \<and> (0::int) < 2 \<and> even (2::int)
   \<and> staggered [[- 1, 1], [1, 1]] = Inr (Fin 0)
   \<and> spec_staggered 2 [[- 1, 1], [1, 1]] = 0"
proof -
  let ?S3 = "[[1, - 1, 1], [1, 1, - 1], [- 1, 1, 1 :: int]]"
  have ok3: "lattice_ok 3 ?S3"
    and ok2: "lattice_ok 2 [[- 1, 1], [1, 1]]"
    by (simp_all add: lattice_ok_def)
  have r2: "staggered [[- 1, 1], [1, 1]] = Inr (Fin 0)"
    by (simp add: staggered_def np_mul_def np_mean_def)
  have h3: "odd (3::int) \<and> (3::int) \<le> 3" by simp
  have h2: "(0::int) < 2 \<and> even (2::int)" by simp
  from staggered_parity[OF ok3] h3
  have t3: "length (stride2 (concat ?S3)) = (nat 3 * nat 3 + 1) div 2
          \<and> length (stride2 (drop 1 (concat ?S3))) = (nat 3 * nat 3 - 1) div 2
          \<and> staggered ?S3 = Inl BroadcastError"
    by blast
  have a: "(nat 3 * nat 3 + 1) div 2 = 5" "(nat 3 * nat 3 - 1) div 2 = 4" by simp_all
  from staggered_parity[OF ok2] h2
  have t2: "staggered [[- 1, 1], [1, 1]] = Inr (Fin (spec_staggered (nat 2) [[- 1, 1], [1, 1]]))"
    by blast
  have n2: "nat 2 = 2" by simp
  from t3 have r3: "length (stride2 (concat ?S3)) = 5
          \<and> length (stride2 (drop 1 (concat ?S3))) = 4
          \<and> staggered ?S3 = Inl BroadcastError"
    unfolding a .
  from t2 r2 have s2: "spec_staggered 2 [[- 1, 1], [1, 1]] = 0"
    unfolding n2 by simp
  from ok3 h3 r3 ok2 h2 r2 s2 show ?thesis by blast
qed

text \<open>
  Claim C10 as it is written says that every odd \<open>N\<close> fails. For \<open>N = 1\<close> numpy stretches the
  one-element slice to the length of the empty one: nothing is raised.
\<close>

theorem staggered_one_by_one_counterexample:
  "lattice_ok 1 [[1]] \<and> odd (1::int) \<and> length (stride2 (concat [[1::int]])) = 1
   \<and> length (stride2 (drop 1 (concat [[1::int]]))) = 0
   \<and> np_mul (stride2 (concat [[1]])) (stride2 (drop 1 (concat [[1]]))) = Inr []
   \<and> staggered [[1]] = Inr NaN"
  by (simp add: lattice_ok_def staggered_def np_mul_def np_mean_def)

section \<open>Configurations\<close>

text \<open>
  Claim C6, at the claim's input \<open>N = 10\<close>, \<open>Steps = 0\<close>: the run does not complete. The arrays
  have no rows, and the seeding \<^verbatim>\<open>M[0] = \<dots>\<close> raises IndexError before the loop is reached,
  whatever the parameters and the random draws are.
\<close>

theorem zero_steps_index_error: "simulate p 10 0 rnd rng = Inl IndexError"
  by (simp add: simulate_def init_def setrow_def Let_def)

lemma init_lengths:
  "init N Steps rnd = Inr st0 \<Longrightarrow> length (M st0) = nat Steps \<and> length (MS st0) = nat Steps"
  using init_Inr[of N Steps rnd st0] by auto

lemma init_empty_lattice:
  assumes "0 < Steps"
  shows "init 0 Steps rnd =
         Inr \<lparr>spins = [], M = (replicate (nat Steps) (0, Fin 0))[0 := (0, NaN)],
              MS = (replicate (nat Steps) (0, Fin 0))[0 := (0, NaN)]\<rparr>"
proof -
  have s: "staggered (init_spins (nat 0) rnd) = Inr NaN"
    by (simp add: init_spins_def staggered_def np_mul_def np_mean_def)
  have m: "magnetization (init_spins (nat 0) rnd) = NaN"
    by (simp add: init_spins_def magnetization_def np_mean_def)
  have m': "magnetization [] = NaN"
    by (simp add: magnetization_def np_mean_def)
  from init_total[OF _ assms s] show ?thesis
    by (simp add: m' init_spins_def)
qed

lemma run_steps_no_sites:
  "0 < k \<Longrightarrow> N \<le> 0 \<Longrightarrow> run_steps p N rng idx k st = Inl LowGeHigh"
  by (cases k) (simp_all add: step_def)

text \<open>
  Claim C5, as amended. The program checks nothing itself. A negative \<open>N\<close> fails at
  initialisation, when numpy refuses the negative dimensions. \<open>N = 0\<close> (with \<open>Steps \<ge> 1\<close>)
  passes initialisation and fails in the first iteration, when the site is drawn.
  \<open>kBT\<close> is never checked and never makes the run fail: for \<open>N > 0\<close> and every \<open>kBT\<close>, once
  initialisation has succeeded, the loop runs all its iterations without an error.
\<close>

theorem config_errors:
  "(N < 0 \<longrightarrow> simulate p N Steps rnd rng = Inl NegativeDimensions)
   \<and> (N = 0 \<and> 0 < Steps \<longrightarrow>
        (\<exists>st0. init N Steps rnd = Inr st0) \<and> simulate p N Steps rnd rng = Inl LowGeHigh)
   \<and> (0 < N \<and> init N Steps rnd = Inr st0 \<longrightarrow>
        (\<exists>st. run_steps p N rng 0 (nat Steps) st0 = Inr st
            \<and> simulate p N Steps rnd rng = Inr st))"
proof -
  have a: "N < 0 \<longrightarrow> simulate p N Steps rnd rng = Inl NegativeDimensions"
    by (simp add: simulate_def init_def)
  have b: "N = 0 \<and> 0 < Steps \<longrightarrow>
        (\<exists>st0. init N Steps rnd = Inr st0) \<and> simulate p N Steps rnd rng = Inl LowGeHigh"
  proof
    assume h: "N = 0 \<and> 0 < Steps"
    then have k: "0 < nat Steps" by simp
    from h init_empty_lattice[of Steps rnd]
    show "(\<exists>st0. init N Steps rnd = Inr st0) \<and> simulate p N Steps rnd rng = Inl LowGeHigh"
      by (simp add: simulate_def run_steps_no_sites[OF k])
  qed
  have c: "0 < N \<and> init N Steps rnd = Inr st0 \<longrightarrow>
        (\<exists>st. run_steps p N rng 0 (nat Steps) st0 = Inr st
            \<and> simulate p N Steps rnd rng = Inr st)"
  proof
    assume h: "0 < N \<and> init N Steps rnd = Inr st0"
    then have i: "init N Steps rnd = Inr st0" and n: "0 < N" by simp_all
    from init_Inr[OF i] obtain v where
      sp: "spins st0 = init_spins (nat N) rnd" and v: "staggered (spins st0) = Inr v"
      by blast
    from n sp have ok: "lattice_ok N (spins st0)" by (simp add: lattice_ok_init)
    with v have par: "even N \<or> N = 1" using staggered_ok_iff by blast
    from init_lengths[OF i] have l: "0 + nat Steps \<le> length (M st0)"
      "0 + nat Steps \<le> length (MS st0)" by simp_all
    from run_total[OF n par ok l] obtain st where
      "run_steps p N rng 0 (nat Steps) st0 = Inr st" by blast
    with i show "\<exists>st. run_steps p N rng 0 (nat Steps) st0 = Inr st
            \<and> simulate p N Steps rnd rng = Inr st"
      by (simp add: simulate_def)
  qed
  from a b c show ?thesis by blast
qed

lemma negative_kBT_attempt:
  "attempt \<lparr>J = 2, B = 0, kBT = - 1\<rparr> 2 [[1, 1], [1, 1]] corner_draw = [[- 1, 1], [1, 1]]"
proof -
  have "1 / 2 < exp (16 :: real)"
    using exp_ge_add_one_self[of "16 :: real"] by simp
  then show ?thesis
    by (simp add: attempt_def deltaE_def cell_def accept_def flip_def)
qed

lemma demo_init_one:
  "init 2 1 all_up =
     Inr \<lparr>spins = [[1, 1], [1, 1]], M = [(0, Fin 1)], MS = [(0, Fin (- 1))]\<rparr>"
proof -
  have n: "nat 2 = 2" "nat 1 = 1" by simp_all
  show ?thesis
    unfolding init_def n init_spins_all_up
    by (simp add: Let_def setrow_def magnetization_def np_mean_def staggered_def np_mul_def)
qed

lemma negative_kBT_step:
  "step \<lparr>J = 2, B = 0, kBT = - 1\<rparr> 2
     \<lparr>spins = [[1, 1], [1, 1]], M = [(0, Fin 1)], MS = [(0, Fin (- 1))]\<rparr> 0 corner_draw =
   Inr \<lparr>spins = [[- 1, 1], [1, 1]], M = [(0, Fin (1 / 2))], MS = [(0, Fin 0)]\<rparr>"
  by (simp add: step_def negative_kBT_attempt Let_def setrow_def magnetization_def np_mean_def
      staggered_def np_mul_def)

theorem config_errors_witness:
  "(- 1 :: int) < 0
   \<and> simulate notebook_params (- 1) 2 all_up corner_rng = Inl NegativeDimensions
   \<and> (0::int) < 1
   \<and> init 0 1 all_up = Inr \<lparr>spins = [], M = [(0, NaN)], MS = [(0, NaN)]\<rparr>
   \<and> simulate notebook_params 0 1 all_up corner_rng = Inl LowGeHigh
   \<and> (0::int) < 2
   \<and> init 2 1 all_up =
       Inr \<lparr>spins = [[1, 1], [1, 1]], M = [(0, Fin 1)], MS = [(0, Fin (- 1))]\<rparr>
   \<and> simulate \<lparr>J = 2, B = 0, kBT = - 1\<rparr> 2 1 all_up corner_rng =
       Inr \<lparr>spins = [[- 1, 1], [1, 1]], M = [(0, Fin (1 / 2))], MS = [(0, Fin 0)]\<rparr>"
proof -
  let ?pn = "\<lparr>J = 2, B = 0, kBT = - 1\<rparr>"
  let ?st0 = "\<lparr>spins = [[1, 1], [1, 1]], M = [(0 :: real, Fin 1)], MS = [(0 :: real, Fin (- 1))]\<rparr>"
  have a: "simulate notebook_params (- 1) 2 all_up corner_rng = Inl NegativeDimensions"
    using config_errors[of "- 1" notebook_params 2 all_up corner_rng] by simp
  have b: "simulate notebook_params 0 1 all_up corner_rng = Inl LowGeHigh"
    using config_errors[of 0 notebook_params 1 all_up corner_rng] by simp
  have b0: "init 0 1 all_up = Inr \<lparr>spins = [], M = [(0, NaN)], MS = [(0, NaN)]\<rparr>"
    using init_empty_lattice[of 1 all_up] by simp
  from config_errors[of 2 ?pn 1 all_up corner_rng ?st0] demo_init_one
  obtain st where r: "run_steps ?pn 2 corner_rng 0 (nat 1) ?st0 = Inr st"
    and s: "simulate ?pn 2 1 all_up corner_rng = Inr st"
    by auto
  from r negative_kBT_step
  have "st = \<lparr>spins = [[- 1, 1], [1, 1]], M = [(0, Fin (1 / 2))], MS = [(0, Fin 0)]\<rparr>"
    by simp
  with s have c: "simulate ?pn 2 1 all_up corner_rng =
       Inr \<lparr>spins = [[- 1, 1], [1, 1]], M = [(0, Fin (1 / 2))], MS = [(0, Fin 0)]\<rparr>"
    by simp
  from a b b0 c demo_init_one show ?thesis by simp
qed

text \<open>
  Claim C5 as it is written says that a non-positive \<open>kBT\<close> fails at initialisation. With
  \<open>kBT = -1\<close> (and \<open>J = 2\<close>, \<open>B = 0\<close>, so that \<open>dE = 16\<close> and the Boltzmann factor \<open>exp 16\<close> is
  consulted) the run of one step on the \<open>2 \<times> 2\<close> lattice completes.
\<close>

theorem negative_kBT_counterexample:
  "kBT \<lparr>J = 2, B = 0, kBT = - 1\<rparr> \<le> 0
   \<and> deltaE \<lparr>J = 2, B = 0, kBT = - 1\<rparr> 2 [[1, 1], [1, 1]] 0 0 = 16
   \<and> simulate \<lparr>J = 2, B = 0, kBT = - 1\<rparr> 2 1 all_up corner_rng =
       Inr \<lparr>spins = [[- 1, 1], [1, 1]], M = [(0, Fin (1 / 2))], MS = [(0, Fin 0)]\<rparr>"
  using negative_kBT_step
  by (simp add: simulate_def demo_init_one deltaE_def cell_def)

end
